theory Spec2Isabelle
  imports Main "HOL-Library.AList"
begin

section \<open>JavaScript values\<close>

text \<open>
  The handlers of \<^verbatim>\<open>src/services/actionRegistry.ts\<close> work on untyped JSON-like data: the
  records that the stores hand out and the field mappings that callers pass in. They are
  modelled as they are at run time. Numbers are the integral ones (credits, counters,
  millisecond time values); an object is an association list of its own properties.
\<close>

datatype jsval =
    JUndefined
  | JNull
  | JBool bool
  | JNum int
  | JStr string
  | JArr "jsval list"
  | JObj "(string \<times> jsval) list"

type_synonym jsobj = "(string \<times> jsval) list"

text \<open>JavaScript errors: the constructor, with the message that \<^verbatim>\<open>e.message\<close> reads.\<close>

datatype error = Error string | TypeError string | RangeError string

fun message :: "error \<Rightarrow> string" where
  "message (Error m) = m"
| "message (TypeError m) = m"
| "message (RangeError m) = m"

text \<open>Truthiness, as \<^verbatim>\<open>!x\<close>, \<^verbatim>\<open>x || y\<close> and \<^verbatim>\<open>if (x)\<close> test it.\<close>

fun truthy :: "jsval \<Rightarrow> bool" where
  "truthy JUndefined = False"
| "truthy JNull = False"
| "truthy (JBool b) = b"
| "truthy (JNum n) = (n \<noteq> 0)"
| "truthy (JStr s) = (s \<noteq> [])"
| "truthy (JArr xs) = True"
| "truthy (JObj ps) = True"

text \<open>Property read \<^verbatim>\<open>o.k\<close>: a property the object does not have reads as undefined.\<close>

definition get_prop :: "jsobj \<Rightarrow> string \<Rightarrow> jsval" where
  "get_prop obj k = (case map_of obj k of None \<Rightarrow> JUndefined | Some v \<Rightarrow> v)"

text \<open>
  Object spread \<^verbatim>\<open>{ ...a, ...b }\<close>: the properties of \<open>b\<close> laid over those of \<open>a\<close>.
  The handlers read properties by name only, so the order of the list carries no meaning.
\<close>

definition spread :: "jsobj \<Rightarrow> jsobj \<Rightarrow> jsobj" where
  "spread a b = AList.merge a b"

text \<open>
  Array spread \<^verbatim>\<open>...(x || [])\<close> inside an array literal: a falsy value is replaced by the
  empty array; an array gives its elements, a string its characters, and anything else is
  not iterable.
\<close>

definition spread_or_empty :: "jsval \<Rightarrow> error + jsval list" where
  "spread_or_empty x =
     (if \<not> truthy x then Inr []
      else case x of
          JArr xs \<Rightarrow> Inr xs
        | JStr s \<Rightarrow> Inr (map (\<lambda>c. JStr [c]) s)
        | _ \<Rightarrow> Inl (TypeError ''object is not iterable''))"

subsection \<open>Numbers and values as text\<close>

text \<open>An integral number as text: its decimal digits, after a minus sign if negative.\<close>

fun decimal :: "nat \<Rightarrow> string" where
  "decimal n = (if 10 \<le> n then decimal (n div 10) else []) @ [''0123456789'' ! (n mod 10)]"

declare decimal.simps [simp del]

definition number_string :: "int \<Rightarrow> string" where
  "number_string i = (if 0 \<le> i then decimal (nat i) else CHR ''-'' # decimal (nat (- i)))"

text \<open>
  The text a value has inside a template literal \<^verbatim>\<open>`${x}`\<close> (ToString). An array is its
  elements joined by commas, null and undefined elements being empty.
\<close>

fun js_toString :: "jsval \<Rightarrow> string" and js_join :: "jsval list \<Rightarrow> string" where
  "js_toString JUndefined = ''undefined''"
| "js_toString JNull = ''null''"
| "js_toString (JBool b) = (if b then ''true'' else ''false'')"
| "js_toString (JNum n) = number_string n"
| "js_toString (JStr s) = s"
| "js_toString (JArr xs) = js_join xs"
| "js_toString (JObj ps) = ''[object Object]''"
| "js_join [] = []"
| "js_join (x # xs) =
     (if x = JUndefined \<or> x = JNull then [] else js_toString x) @
     (if xs = [] then [] else '','' @ js_join xs)"

section \<open>Dates\<close>

text \<open>
  A \<^verbatim>\<open>Date\<close> object holds a time value: milliseconds since the epoch, or NaN for an
  invalid date (\<open>None\<close>). The day and month arithmetic below is the one of the language
  definition (Day, TimeWithinDay, DayFromYear, MonthFromTime, DateFromTime, MakeDay,
  MakeDate, TimeClip, LocalTime, UTC).
\<close>

definition msPerDay :: int where
  "msPerDay = 86400000"

definition Day :: "int \<Rightarrow> int" where
  "Day t = t div msPerDay"

definition TimeWithinDay :: "int \<Rightarrow> int" where
  "TimeWithinDay t = t mod msPerDay"

definition DayFromYear :: "int \<Rightarrow> int" where
  "DayFromYear y =
     365 * (y - 1970) + (y - 1969) div 4 - (y - 1901) div 100 + (y - 1601) div 400"

definition leap_year :: "int \<Rightarrow> bool" where
  "leap_year y = (y mod 4 = 0 \<and> (y mod 100 \<noteq> 0 \<or> y mod 400 = 0))"

text \<open>The year that holds day number \<open>d\<close>, computed by 400-year eras from 1 March 0000.\<close>

definition year_of_day :: "int \<Rightarrow> int" where
  "year_of_day d =
     (let z = d + 719468;
          era = z div 146097;
          doe = z mod 146097;
          yoe = (doe - doe div 1460 + doe div 36524 - doe div 146096) div 365;
          doy = doe - (365 * yoe + yoe div 4 - yoe div 100)
      in yoe + era * 400 + (if doy < 306 then 0 else 1))"

definition YearFromTime :: "int \<Rightarrow> int" where
  "YearFromTime t = year_of_day (Day t)"

definition DayWithinYear :: "int \<Rightarrow> int" where
  "DayWithinYear t = Day t - DayFromYear (YearFromTime t)"

text \<open>The day within the year on which month \<open>m\<close> (0 to 11) starts.\<close>

definition month_start :: "int \<Rightarrow> bool \<Rightarrow> int" where
  "month_start m leap =
     (let l = (if leap then 1 else 0) in
      if m = 0 then 0 else if m = 1 then 31 else if m = 2 then 59 + l
      else if m = 3 then 90 + l else if m = 4 then 120 + l else if m = 5 then 151 + l
      else if m = 6 then 181 + l else if m = 7 then 212 + l else if m = 8 then 243 + l
      else if m = 9 then 273 + l else if m = 10 then 304 + l else 334 + l)"

definition MonthFromTime :: "int \<Rightarrow> int" where
  "MonthFromTime t =
     (let d = DayWithinYear t; leap = leap_year (YearFromTime t) in
      if d < month_start 1 leap then 0 else if d < month_start 2 leap then 1
      else if d < month_start 3 leap then 2 else if d < month_start 4 leap then 3
      else if d < month_start 5 leap then 4 else if d < month_start 6 leap then 5
      else if d < month_start 7 leap then 6 else if d < month_start 8 leap then 7
      else if d < month_start 9 leap then 8 else if d < month_start 10 leap then 9
      else if d < month_start 11 leap then 10 else 11)"

definition DateFromTime :: "int \<Rightarrow> int" where
  "DateFromTime t =
     DayWithinYear t - month_start (MonthFromTime t) (leap_year (YearFromTime t)) + 1"

definition MakeDay :: "int \<Rightarrow> int \<Rightarrow> int \<Rightarrow> int" where
  "MakeDay year month date =
     (let ym = year + month div 12; mn = month mod 12
      in DayFromYear ym + month_start mn (leap_year ym) + date - 1)"

definition MakeDate :: "int \<Rightarrow> int \<Rightarrow> int" where
  "MakeDate day time = day * msPerDay + time"

definition TimeClip :: "int \<Rightarrow> int option" where
  "TimeClip t = (if \<bar>t\<bar> \<le> 8640000000000000 then Some t else None)"

text \<open>
  The time zone of the host. Its offset from UTC changes with the date (daylight saving),
  so it is given as two functions: \<open>utc_offset z t\<close> is the offset in force at the time
  value \<open>t\<close>, and \<open>local_offset z t\<close> the offset in force when the local clock shows
  \<open>t\<close>. \<open>LocalTime\<close> turns a time value into local time and \<open>UTC\<close> turns local time
  back.
\<close>

record zone =
  utc_offset :: "int \<Rightarrow> int"
  local_offset :: "int \<Rightarrow> int"

definition LocalTime :: "zone \<Rightarrow> int \<Rightarrow> int" where
  "LocalTime z t = t + utc_offset z t"

definition UTC :: "zone \<Rightarrow> int \<Rightarrow> int" where
  "UTC z t = t - local_offset z t"

text \<open>\<^verbatim>\<open>d.getDate()\<close> and \<^verbatim>\<open>d.getMonth()\<close>: NaN on an invalid date.\<close>

definition getDate :: "zone \<Rightarrow> int option \<Rightarrow> int option" where
  "getDate z d = map_option (\<lambda>t. DateFromTime (LocalTime z t)) d"

definition getMonth :: "zone \<Rightarrow> int option \<Rightarrow> int option" where
  "getMonth z d = map_option (\<lambda>t. MonthFromTime (LocalTime z t)) d"

text \<open>
  \<^verbatim>\<open>d.setDate(dt)\<close> and \<^verbatim>\<open>d.setMonth(m)\<close>: the new time value of \<open>d\<close>. The day of the
  month, or the month, is replaced in local time and the rest is kept; NaN as the
  argument or as the old time value gives an invalid date.
\<close>

definition setDate :: "zone \<Rightarrow> int option \<Rightarrow> int option \<Rightarrow> int option" where
  "setDate z d dt =
     (case (d, dt) of
        (Some t0, Some n) \<Rightarrow>
          (let t = LocalTime z t0;
               newDate = MakeDate (MakeDay (YearFromTime t) (MonthFromTime t) n) (TimeWithinDay t)
           in TimeClip (UTC z newDate))
      | _ \<Rightarrow> None)"

definition setMonth :: "zone \<Rightarrow> int option \<Rightarrow> int option \<Rightarrow> int option" where
  "setMonth z d m =
     (case (d, m) of
        (Some t0, Some n) \<Rightarrow>
          (let t = LocalTime z t0;
               newDate = MakeDate (MakeDay (YearFromTime t) n (DateFromTime t)) (TimeWithinDay t)
           in TimeClip (UTC z newDate))
      | _ \<Rightarrow> None)"

text \<open>\<^verbatim>\<open>d.toISOString()\<close>: \<^verbatim>\<open>YYYY-MM-DDTHH:mm:ss.sssZ\<close> in UTC; an invalid date throws.\<close>

definition pad :: "nat \<Rightarrow> string \<Rightarrow> string" where
  "pad n s = replicate (n - length s) (CHR ''0'') @ s"

definition year_string :: "int \<Rightarrow> string" where
  "year_string y =
     (if 0 \<le> y \<and> y \<le> 9999 then pad 4 (decimal (nat y))
      else (if y < 0 then ''-'' else ''+'') @ pad 6 (decimal (nat \<bar>y\<bar>)))"

definition iso_string :: "int \<Rightarrow> string" where
  "iso_string t =
     (let ms = TimeWithinDay t in
      year_string (YearFromTime t) @ ''-'' @
      pad 2 (decimal (nat (MonthFromTime t + 1))) @ ''-'' @
      pad 2 (decimal (nat (DateFromTime t))) @ ''T'' @
      pad 2 (decimal (nat (ms div 3600000))) @ '':'' @
      pad 2 (decimal (nat (ms div 60000 mod 60))) @ '':'' @
      pad 2 (decimal (nat (ms div 1000 mod 60))) @ ''.'' @
      pad 3 (decimal (nat (ms mod 1000))) @ ''Z'')"

definition toISOString :: "int option \<Rightarrow> error + string" where
  "toISOString d =
     (case d of None \<Rightarrow> Inl (RangeError ''Invalid time value'') | Some t \<Rightarrow> Inr (iso_string t))"

section \<open>The stores, the clock and the host\<close>

text \<open>
  The handlers talk to two stores: the document store (Firestore; collections
  \<^verbatim>\<open>users\<close> and \<^verbatim>\<open>ai_interactions\<close>) and the live store (the realtime database; paths
  \<^verbatim>\<open>users/<id>\<close> and \<^verbatim>\<open>system_settings\<close>). Every call that the handlers make to
  the stores' client library is one of these. \<open>FsDoc\<close> is \<^verbatim>\<open>doc(db, collection, id)\<close>,
  which builds a document reference and reaches no store; the others are calls to a store.
\<close>

datatype store_call =
    FsDoc string string
  | FsDeleteDoc string string
  | FsGetDocs string
  | FsQueryLogs int
  | RtdbGet string
  | RtdbRemove string
  | SaveUserToLive jsobj
  | SaveSystemSettings jsobj

text \<open>
  The world a handler runs in. The contents of the stores: \<open>fs_users\<close> is the document
  collection \<^verbatim>\<open>users\<close>, \<open>rtdb_users\<close> the live records under \<^verbatim>\<open>users/\<close>,
  \<open>rtdb_settings\<close> the value at \<^verbatim>\<open>system_settings\<close> (\<open>None\<close>: nothing there), and
  \<open>logs_answer n\<close> the documents that the document store answers to the query over
  \<^verbatim>\<open>ai_interactions\<close> (ordered by timestamp, descending, \<^verbatim>\<open>limitToLast(n)\<close>); the
  evaluation of that query is the store's.
  \<open>calls\<close> is the history of the calls to the stores made so far, in order. \<open>faults\<close>
  says which calls throw: the call \<open>c\<close> made after \<open>n\<close> earlier store calls throws an error
  with message \<open>m\<close> when \<open>faults n c = Some m\<close>. \<open>clock\<close> gives the successive readings of
  the system clock, \<open>ticks\<close> counts the readings taken. \<open>tz\<close> is the host's time zone and
  \<open>date_parse\<close> the host's \<^verbatim>\<open>Date.parse\<close>.
\<close>

record world =
  fs_users :: "(string \<times> jsobj) list"
  rtdb_users :: "(string \<times> jsobj) list"
  rtdb_settings :: "jsobj option"
  logs_answer :: "int \<Rightarrow> jsobj list"
  calls :: "store_call list"
  faults :: "nat \<Rightarrow> store_call \<Rightarrow> string option"
  clock :: "nat \<Rightarrow> int"
  ticks :: nat
  tz :: zone
  date_parse :: "string \<Rightarrow> int option"

text \<open>
  An asynchronous function is a function of the world that returns the value it resolves
  to, or the error it rejects with, and the world it leaves. One handler runs at a time.
\<close>

type_synonym 'a io = "world \<Rightarrow> (error + 'a) \<times> world"

definition io_return :: "'a \<Rightarrow> 'a io" where
  "io_return x w = (Inr x, w)"

definition io_throw :: "error \<Rightarrow> 'a io" where
  "io_throw e w = (Inl e, w)"

definition io_bind :: "'a io \<Rightarrow> ('a \<Rightarrow> 'b io) \<Rightarrow> 'b io" where
  "io_bind m f w = (case m w of (Inl e, w1) \<Rightarrow> (Inl e, w1) | (Inr x, w1) \<Rightarrow> f x w1)"

definition io_catch :: "'a io \<Rightarrow> (error \<Rightarrow> 'a io) \<Rightarrow> 'a io" where
  "io_catch m h w = (case m w of (Inl e, w1) \<Rightarrow> h e w1 | (Inr x, w1) \<Rightarrow> (Inr x, w1))"

definition io_lift :: "error + 'a \<Rightarrow> 'a io" where
  "io_lift r w = (r, w)"

text \<open>A store call is recorded, and throws when the world says so.\<close>

definition store :: "store_call \<Rightarrow> unit io" where
  "store c w =
     (let w1 = w\<lparr>calls := calls w @ [c]\<rparr> in
      case faults w (length (calls w)) c of
        Some m \<Rightarrow> (Inl (Error m), w1)
      | None \<Rightarrow> (Inr (), w1))"

text \<open>
  \<^verbatim>\<open>doc(db, "users", userId)\<close>: the reference is built without a call to the store, so
  nothing enters the history. The library throws when the path is not that of a document
  (an id that is empty, or has a slash in the wrong place); \<open>faults\<close> says when.
\<close>

definition doc :: "string \<Rightarrow> string \<Rightarrow> unit io" where
  "doc col k w =
     (case faults w (length (calls w)) (FsDoc col k) of
        Some m \<Rightarrow> (Inl (Error m), w)
      | None \<Rightarrow> (Inr (), w))"

text \<open>\<^verbatim>\<open>get(ref(rtdb, `users/${userId}`))\<close>: the snapshot; \<open>None\<close> when it does not exist.\<close>

definition get_user :: "string \<Rightarrow> jsobj option io" where
  "get_user userId =
     io_bind (store (RtdbGet (''users/'' @ userId)))
       (\<lambda>_ w. (Inr (map_of (rtdb_users w) userId), w))"

text \<open>\<^verbatim>\<open>get(ref(rtdb, 'system_settings'))\<close>.\<close>

definition get_system_settings :: "jsobj option io" where
  "get_system_settings =
     io_bind (store (RtdbGet ''system_settings'')) (\<lambda>_ w. (Inr (rtdb_settings w), w))"

text \<open>
  \<^verbatim>\<open>deleteDoc(doc(db, "users", userId))\<close>, as one call: a reference that cannot be built
  is a deletion that throws.
\<close>

definition deleteDoc_users :: "string \<Rightarrow> unit io" where
  "deleteDoc_users userId =
     io_bind (store (FsDeleteDoc ''users'' userId))
       (\<lambda>_ w. (Inr (), w\<lparr>fs_users := AList.delete userId (fs_users w)\<rparr>))"

text \<open>\<^verbatim>\<open>remove(ref(rtdb, `users/${userId}`))\<close>.\<close>

definition remove_user :: "string \<Rightarrow> unit io" where
  "remove_user userId =
     io_bind (store (RtdbRemove (''users/'' @ userId)))
       (\<lambda>_ w. (Inr (), w\<lparr>rtdb_users := AList.delete userId (rtdb_users w)\<rparr>))"

text \<open>\<^verbatim>\<open>getDocs(collection(db, "users"))\<close>, mapped to the documents' data.\<close>

definition getDocs_users :: "jsobj list io" where
  "getDocs_users =
     io_bind (store (FsGetDocs ''users'')) (\<lambda>_ w. (Inr (map snd (fs_users w)), w))"

text \<open>
  \<^verbatim>\<open>getDocs(query(collection(db, "ai_interactions"), orderBy("timestamp", "desc"),
  limitToLast(limit)))\<close>, mapped to the documents' data.
\<close>

definition getDocs_logs :: "int \<Rightarrow> jsobj list io" where
  "getDocs_logs n =
     io_bind (store (FsQueryLogs n)) (\<lambda>_ w. (Inr (logs_answer w n), w))"

text \<open>
  Modelled from the spec: \<^verbatim>\<open>saveUserToLive\<close> is imported from \<^verbatim>\<open>../firebase\<close>, which is
  not among the sources. The spec has the merged record written back in full as the live
  record (4.2, updateUser; 6, setLiveValue). The function receives the record alone, so
  the live record it writes is the one the record's own \<^verbatim>\<open>id\<close> names.
\<close>

definition saveUserToLive :: "jsobj \<Rightarrow> unit io" where
  "saveUserToLive u =
     io_bind (store (SaveUserToLive u))
       (\<lambda>_ w. (Inr (),
          w\<lparr>rtdb_users := AList.update (js_toString (get_prop u ''id'')) u (rtdb_users w)\<rparr>))"

text \<open>
  Modelled from the spec: \<^verbatim>\<open>saveSystemSettings\<close> is imported from \<^verbatim>\<open>../firebase\<close>, which
  is not among the sources. The spec has the settings singleton written back whole (4.2,
  broadcastMessage, createWeeklyTest, updateSystemSettings).
\<close>

definition saveSystemSettings :: "jsobj \<Rightarrow> unit io" where
  "saveSystemSettings s =
     io_bind (store (SaveSystemSettings s))
       (\<lambda>_ w. (Inr (), w\<lparr>rtdb_settings := Some s\<rparr>))"

text \<open>\<^verbatim>\<open>new Date()\<close> and \<^verbatim>\<open>Date.now()\<close> read the clock.\<close>

definition new_Date :: "int option io" where
  "new_Date w = (Inr (TimeClip (clock w (ticks w))), w\<lparr>ticks := Suc (ticks w)\<rparr>)"

definition Date_now :: "int io" where
  "Date_now w = (Inr (clock w (ticks w)), w\<lparr>ticks := Suc (ticks w)\<rparr>)"

text \<open>
  \<^verbatim>\<open>new Date(x)\<close>: a string is parsed by the host, a number is the time value itself, and
  the other values are converted to one of the two first.
\<close>

definition Date_of :: "world \<Rightarrow> jsval \<Rightarrow> int option" where
  "Date_of w x =
     (case x of
        JUndefined \<Rightarrow> None
      | JNull \<Rightarrow> Some 0
      | JBool b \<Rightarrow> Some (if b then 1 else 0)
      | JNum n \<Rightarrow> TimeClip n
      | JStr s \<Rightarrow> Option.bind (date_parse w s) TimeClip
      | JArr xs \<Rightarrow> Option.bind (date_parse w (js_toString x)) TimeClip
      | JObj ps \<Rightarrow> Option.bind (date_parse w (js_toString x)) TimeClip)"

text \<open>\<^verbatim>\<open>a < b\<close> on two dates: false when either is invalid.\<close>

definition date_less :: "int option \<Rightarrow> int option \<Rightarrow> bool" where
  "date_less a b = (case (a, b) of (Some x, Some y) \<Rightarrow> x < y | _ \<Rightarrow> False)"

section \<open>The handlers\<close>

datatype plan = WEEKLY | MONTHLY | YEARLY | LIFETIME

datatype level = BASIC | ULTRA

datatype message_type = TEXT | GIFT

datatype scan_filter = ALL_USERS | PREMIUM | FREE | INACTIVE

text \<open>The string that a value of these union types is at run time.\<close>

fun plan_name :: "plan \<Rightarrow> string" where
  "plan_name WEEKLY = ''WEEKLY''"
| "plan_name MONTHLY = ''MONTHLY''"
| "plan_name YEARLY = ''YEARLY''"
| "plan_name LIFETIME = ''LIFETIME''"

fun level_name :: "level \<Rightarrow> string" where
  "level_name BASIC = ''BASIC''"
| "level_name ULTRA = ''ULTRA''"

subsection \<open>Helpers\<close>

definition getAllUsers :: "jsobj list io" where
  "getAllUsers = io_catch getDocs_users (\<lambda>e. io_return [])"

definition getSettings :: "jsobj option io" where
  "getSettings =
     io_catch (io_bind get_system_settings (\<lambda>snapshot. io_return snapshot))
       (\<lambda>e. io_return None)"

subsection \<open>Actions on a user\<close>

definition deleteUser :: "string \<Rightarrow> jsval io" where
  "deleteUser userId =
     io_catch
       (io_bind (deleteDoc_users userId) (\<lambda>_.
        io_bind (remove_user userId) (\<lambda>_.
        io_return
          (JStr (''User '' @ userId @ '' deleted successfully from Firestore and RTDB.'')))))
       (\<lambda>e. io_throw (Error (''Failed to delete user '' @ userId @ '': '' @ message e)))"

definition updateUser :: "string \<Rightarrow> jsobj \<Rightarrow> jsval io" where
  "updateUser userId updates =
     io_catch
       (io_bind (doc ''users'' userId) (\<lambda>userRef.
        io_bind (get_user userId) (\<lambda>snapshot.
        case snapshot of
          None \<Rightarrow> io_throw (Error ''User not found'')
        | Some currentUser \<Rightarrow>
            io_bind (saveUserToLive (spread currentUser updates)) (\<lambda>_.
            io_return (JStr (''User '' @ userId @ '' updated.''))))))
       (\<lambda>e. io_throw (Error (''Failed to update user: '' @ message e)))"

definition banUser :: "string \<Rightarrow> string \<Rightarrow> jsval io" where
  "banUser userId reason = updateUser userId [(''isLocked'', JBool True)]"

definition unbanUser :: "string \<Rightarrow> jsval io" where
  "unbanUser userId = updateUser userId [(''isLocked'', JBool False)]"

text \<open>
  The end date of a grant: \<open>now\<close> and \<open>endDate\<close> are the two dates that
  \<^verbatim>\<open>grantSubscription\<close> creates, one after the other; the result is \<open>None\<close> for
  \<^verbatim>\<open>null\<close>.
\<close>

definition grant_end :: "zone \<Rightarrow> plan \<Rightarrow> int option \<Rightarrow> int option \<Rightarrow> int option option" where
  "grant_end z plan now endDate =
     (if plan = WEEKLY then Some (setDate z endDate (map_option (\<lambda>d. d + 7) (getDate z now)))
      else if plan = MONTHLY then
        Some (setDate z endDate (map_option (\<lambda>d. d + 30) (getDate z now)))
      else if plan = YEARLY then
        Some (setDate z endDate (map_option (\<lambda>d. d + 365) (getDate z now)))
      else None)"

text \<open>The history entry and the field mapping that \<^verbatim>\<open>grantSubscription\<close> builds.\<close>

definition historyEntry :: "int \<Rightarrow> plan \<Rightarrow> level \<Rightarrow> string \<Rightarrow> string \<Rightarrow> jsobj" where
  "historyEntry stamp plan level startIso endIso =
     [(''id'', JStr (''grant-'' @ number_string stamp)),
      (''tier'', JStr (plan_name plan)),
      (''level'', JStr (level_name level)),
      (''startDate'', JStr startIso),
      (''endDate'', JStr endIso),
      (''durationHours'', JNum 0),
      (''price'', JNum 0),
      (''originalPrice'', JNum 0),
      (''isFree'', JBool True),
      (''grantSource'', JStr ''ADMIN''),
      (''grantedBy'', JStr ''AI_AGENT'')]"

definition grant_updates :: "plan \<Rightarrow> level \<Rightarrow> jsval \<Rightarrow> jsval list \<Rightarrow> jsobj" where
  "grant_updates plan level endValue newHistory =
     [(''subscriptionTier'', JStr (plan_name plan)),
      (''subscriptionLevel'', JStr (level_name level)),
      (''subscriptionEndDate'', endValue),
      (''isPremium'', JBool True),
      (''subscriptionHistory'', JArr newHistory),
      (''grantedByAdmin'', JBool True)]"

definition grantSubscription :: "string \<Rightarrow> plan \<Rightarrow> level \<Rightarrow> jsval io" where
  "grantSubscription userId plan level w =
     io_bind new_Date (\<lambda>now.
     io_bind new_Date (\<lambda>endDate0.
     let endDate = grant_end (tz w) plan now endDate0 in
     io_bind Date_now (\<lambda>stamp.
     io_bind (io_lift (toISOString now)) (\<lambda>startIso.
     io_bind (io_lift (case endDate of Some d \<Rightarrow> toISOString d | None \<Rightarrow> Inr ''LIFETIME''))
       (\<lambda>endIso.
     io_bind (get_user userId) (\<lambda>snapshot.
     case snapshot of
       None \<Rightarrow> io_throw (Error ''User not found'')
     | Some user \<Rightarrow>
         io_bind (io_lift (spread_or_empty (get_prop user ''subscriptionHistory'')))
           (\<lambda>oldHistory.
         io_bind
           (io_lift (case endDate of
                       Some d \<Rightarrow> map_sum id JStr (toISOString d)
                     | None \<Rightarrow> Inr JUndefined))
           (\<lambda>endValue.
         updateUser userId
           (grant_updates plan level endValue
              (JObj (historyEntry stamp plan level startIso endIso) # oldHistory))))))))))
     w"

definition sendInboxMessage :: "string \<Rightarrow> string \<Rightarrow> jsval io" where
  "sendInboxMessage userId text =
     io_bind (get_user userId) (\<lambda>snapshot.
     case snapshot of
       None \<Rightarrow> io_throw (Error ''User not found'')
     | Some user \<Rightarrow>
         io_bind Date_now (\<lambda>stamp.
         io_bind new_Date (\<lambda>d.
         io_bind (io_lift (toISOString d)) (\<lambda>iso.
         let newMsg =
           [(''id'', JStr (''msg-'' @ number_string stamp)),
            (''text'', JStr text),
            (''date'', JStr iso),
            (''read'', JBool False),
            (''type'', JStr ''TEXT'')] in
         io_bind (io_lift (spread_or_empty (get_prop user ''inbox''))) (\<lambda>oldInbox.
         io_bind (updateUser userId [(''inbox'', JArr (JObj newMsg # oldInbox))]) (\<lambda>_.
         io_return
           (JStr (''Message sent to '' @ js_toString (get_prop user ''name'') @ ''.''))))))))"

subsection \<open>Actions on the settings\<close>

text \<open>The parameters \<^verbatim>\<open>type\<close> and \<^verbatim>\<open>giftValue\<close> are not used by the body.\<close>

definition broadcastMessage :: "string \<Rightarrow> message_type \<Rightarrow> int option \<Rightarrow> jsval io" where
  "broadcastMessage msg type giftValue =
     io_bind getSettings (\<lambda>settings.
     case settings of
       Some s \<Rightarrow>
         io_bind (saveSystemSettings (spread s [(''noticeText'', JStr msg)])) (\<lambda>_.
         io_return (JStr ''Broadcast banner updated successfully.''))
     | None \<Rightarrow> io_return (JStr ''Failed to fetch settings.''))"

definition createWeeklyTest :: "string \<Rightarrow> string \<Rightarrow> int \<Rightarrow> jsval io" where
  "createWeeklyTest name subject questionCount =
     io_bind getSettings (\<lambda>settings.
     case settings of
       None \<Rightarrow> io_throw (Error ''Settings not found'')
     | Some s \<Rightarrow>
         io_bind Date_now (\<lambda>stamp.
         io_bind new_Date (\<lambda>d.
         io_bind (io_lift (toISOString d)) (\<lambda>iso.
         let newTest =
           [(''id'', JStr (''test-'' @ number_string stamp)),
            (''name'', JStr name),
            (''description'', JStr (''Subject: '' @ subject)),
            (''isActive'', JBool True),
            (''classLevel'', JStr ''10''),
            (''questions'', JArr []),
            (''totalQuestions'', JNum questionCount),
            (''passingScore'', JNum 40),
            (''createdAt'', JStr iso),
            (''durationMinutes'', JNum 60),
            (''selectedSubjects'', JArr [JStr subject])] in
         io_bind (io_lift (spread_or_empty (get_prop s ''weeklyTests''))) (\<lambda>oldTests.
         io_bind
           (saveSystemSettings (spread s [(''weeklyTests'', JArr (oldTests @ [JObj newTest]))]))
           (\<lambda>_.
         io_return
           (JStr (''Weekly Test '' @ [CHR 0x22] @ name @ [CHR 0x22] @
              '' created (Empty Questions).''))))))))"

definition updateSystemSettings :: "jsobj \<Rightarrow> jsval io" where
  "updateSystemSettings updates =
     io_catch
       (io_bind getSettings (\<lambda>current.
        case current of
          None \<Rightarrow> io_throw (Error ''Settings not found'')
        | Some c \<Rightarrow>
            io_bind (saveSystemSettings (spread c updates)) (\<lambda>_.
            io_return (JStr ''System Settings updated successfully.''))))
       (\<lambda>e. io_throw (Error (''Failed to update settings: '' @ message e)))"

subsection \<open>Listings\<close>

text \<open>The summary that \<^verbatim>\<open>scanUsers\<close> maps every selected user to.\<close>

definition summary :: "jsobj \<Rightarrow> jsval" where
  "summary u =
     JObj [(''id'', get_prop u ''id''),
           (''name'', get_prop u ''name''),
           (''email'', get_prop u ''email''),
           (''role'', get_prop u ''role''),
           (''credits'', get_prop u ''credits''),
           (''tier'', get_prop u ''subscriptionTier'')]"

text \<open>
  The date one month ago: \<^verbatim>\<open>monthAgo.setMonth(monthAgo.getMonth() - 1)\<close> on the date
  \<open>d\<close> just created.
\<close>

definition month_ago :: "zone \<Rightarrow> int option \<Rightarrow> int option" where
  "month_ago z d = setMonth z d (map_option (\<lambda>m. m - 1) (getMonth z d))"

text \<open>The test of the \<^verbatim>\<open>INACTIVE\<close> filter.\<close>

definition inactive :: "world \<Rightarrow> int option \<Rightarrow> jsobj \<Rightarrow> bool" where
  "inactive w monthAgo u =
     (\<not> truthy (get_prop u ''lastActiveTime'') \<or>
      date_less (Date_of w (get_prop u ''lastActiveTime'')) monthAgo)"

definition scanUsers :: "scan_filter \<Rightarrow> jsval io" where
  "scanUsers flt w =
     io_bind getAllUsers (\<lambda>users.
     if flt = PREMIUM then
       io_return (JArr (map summary (filter (\<lambda>u. truthy (get_prop u ''isPremium'')) users)))
     else if flt = FREE then
       io_return (JArr (map summary (filter (\<lambda>u. \<not> truthy (get_prop u ''isPremium'')) users)))
     else if flt = INACTIVE then
       io_bind new_Date (\<lambda>d.
       io_return (JArr (map summary (filter (inactive w (month_ago (tz w) d)) users))))
     else io_return (JArr (map summary users)))
     w"

text \<open>\<open>None\<close> as the limit is the omitted argument, which defaults to 20.\<close>

definition getRecentLogs :: "int option \<Rightarrow> jsval io" where
  "getRecentLogs limit =
     io_catch
       (io_bind (getDocs_logs (case limit of None \<Rightarrow> 20 | Some n \<Rightarrow> n)) (\<lambda>docs.
        io_return (JArr (map JObj docs))))
       (\<lambda>e. io_return (JArr []))"

section \<open>The registry and the catalog\<close>

text \<open>
  \<^verbatim>\<open>ActionRegistry\<close> maps each operation name to its handler. A handler is entered here
  with its arguments taken, by the names of its parameters, from the argument object of a
  call; the result is \<open>None\<close> when an argument does not have the type the handler declares
  for it. An omitted \<^verbatim>\<open>reason\<close>, which \<^verbatim>\<open>banUser\<close> never reads, is passed as the empty
  string, and \<^verbatim>\<open>broadcastMessage\<close> gets the declared default of \<^verbatim>\<open>type\<close>.
\<close>

definition plan_of :: "jsval \<Rightarrow> plan option" where
  "plan_of v =
     (if v = JStr ''WEEKLY'' then Some WEEKLY else if v = JStr ''MONTHLY'' then Some MONTHLY
      else if v = JStr ''YEARLY'' then Some YEARLY else if v = JStr ''LIFETIME'' then Some LIFETIME
      else None)"

definition level_of :: "jsval \<Rightarrow> level option" where
  "level_of v =
     (if v = JStr ''BASIC'' then Some BASIC else if v = JStr ''ULTRA'' then Some ULTRA else None)"

definition filter_of :: "jsval \<Rightarrow> scan_filter option" where
  "filter_of v =
     (if v = JStr ''ALL'' then Some ALL_USERS else if v = JStr ''PREMIUM'' then Some PREMIUM
      else if v = JStr ''FREE'' then Some FREE else if v = JStr ''INACTIVE'' then Some INACTIVE
      else None)"

definition ActionRegistry :: "(string \<times> (jsobj \<Rightarrow> jsval io option)) list" where
  "ActionRegistry =
     [(''deleteUser'', \<lambda>a.
         case get_prop a ''userId'' of JStr u \<Rightarrow> Some (deleteUser u) | _ \<Rightarrow> None),
      (''updateUser'', \<lambda>a.
         case (get_prop a ''userId'', get_prop a ''updates'') of
           (JStr u, JObj ps) \<Rightarrow> Some (updateUser u ps)
         | _ \<Rightarrow> None),
      (''banUser'', \<lambda>a.
         case (get_prop a ''userId'', get_prop a ''reason'') of
           (JStr u, JStr r) \<Rightarrow> Some (banUser u r)
         | (JStr u, JUndefined) \<Rightarrow> Some (banUser u [])
         | _ \<Rightarrow> None),
      (''unbanUser'', \<lambda>a.
         case get_prop a ''userId'' of JStr u \<Rightarrow> Some (unbanUser u) | _ \<Rightarrow> None),
      (''grantSubscription'', \<lambda>a.
         case (get_prop a ''userId'', plan_of (get_prop a ''plan''),
               level_of (get_prop a ''level'')) of
           (JStr u, Some p, Some l) \<Rightarrow> Some (grantSubscription u p l)
         | _ \<Rightarrow> None),
      (''broadcastMessage'', \<lambda>a.
         case get_prop a ''message'' of
           JStr m \<Rightarrow> Some (broadcastMessage m TEXT None)
         | _ \<Rightarrow> None),
      (''sendInboxMessage'', \<lambda>a.
         case (get_prop a ''userId'', get_prop a ''text'') of
           (JStr u, JStr t) \<Rightarrow> Some (sendInboxMessage u t)
         | _ \<Rightarrow> None),
      (''createWeeklyTest'', \<lambda>a.
         case (get_prop a ''name'', get_prop a ''subject'', get_prop a ''questionCount'') of
           (JStr n, JStr s, JNum q) \<Rightarrow> Some (createWeeklyTest n s q)
         | _ \<Rightarrow> None),
      (''scanUsers'', \<lambda>a.
         case filter_of (get_prop a ''filter'') of
           Some f \<Rightarrow> Some (scanUsers f)
         | None \<Rightarrow> None),
      (''getRecentLogs'', \<lambda>a.
         case get_prop a ''limit'' of
           JNum n \<Rightarrow> Some (getRecentLogs (Some n))
         | JUndefined \<Rightarrow> Some (getRecentLogs None)
         | _ \<Rightarrow> None),
      (''updateSystemSettings'', \<lambda>a.
         case get_prop a ''updates'' of
           JObj ps \<Rightarrow> Some (updateSystemSettings ps)
         | _ \<Rightarrow> None)]"

text \<open>
  \<^verbatim>\<open>adminTools\<close>: the declared operations, each with its parameters (name, JSON type,
  enumerated values if any) and the names of the required ones. The descriptions, which
  are prose for the calling agent, are left out.
\<close>

record param =
  p_name :: string
  p_type :: string
  p_enum :: "string list option"

record tool =
  t_name :: string
  properties :: "param list"
  required :: "string list"

definition adminTools :: "tool list" where
  "adminTools =
     [\<lparr>t_name = ''deleteUser'',
       properties = [\<lparr>p_name = ''userId'', p_type = ''string'', p_enum = None\<rparr>],
       required = [''userId'']\<rparr>,
      \<lparr>t_name = ''updateUser'',
       properties = [\<lparr>p_name = ''userId'', p_type = ''string'', p_enum = None\<rparr>,
                     \<lparr>p_name = ''updates'', p_type = ''object'', p_enum = None\<rparr>],
       required = [''userId'', ''updates'']\<rparr>,
      \<lparr>t_name = ''grantSubscription'',
       properties = [\<lparr>p_name = ''userId'', p_type = ''string'', p_enum = None\<rparr>,
                     \<lparr>p_name = ''plan'', p_type = ''string'',
                      p_enum = Some [''WEEKLY'', ''MONTHLY'', ''YEARLY'', ''LIFETIME'']\<rparr>,
                     \<lparr>p_name = ''level'', p_type = ''string'',
                      p_enum = Some [''BASIC'', ''ULTRA'']\<rparr>],
       required = [''userId'', ''plan'', ''level'']\<rparr>,
      \<lparr>t_name = ''banUser'',
       properties = [\<lparr>p_name = ''userId'', p_type = ''string'', p_enum = None\<rparr>,
                     \<lparr>p_name = ''reason'', p_type = ''string'', p_enum = None\<rparr>],
       required = [''userId'']\<rparr>,
      \<lparr>t_name = ''unbanUser'',
       properties = [\<lparr>p_name = ''userId'', p_type = ''string'', p_enum = None\<rparr>],
       required = [''userId'']\<rparr>,
      \<lparr>t_name = ''broadcastMessage'',
       properties = [\<lparr>p_name = ''message'', p_type = ''string'', p_enum = None\<rparr>],
       required = [''message'']\<rparr>,
      \<lparr>t_name = ''sendInboxMessage'',
       properties = [\<lparr>p_name = ''userId'', p_type = ''string'', p_enum = None\<rparr>,
                     \<lparr>p_name = ''text'', p_type = ''string'', p_enum = None\<rparr>],
       required = [''userId'', ''text'']\<rparr>,
      \<lparr>t_name = ''createWeeklyTest'',
       properties = [\<lparr>p_name = ''name'', p_type = ''string'', p_enum = None\<rparr>,
                     \<lparr>p_name = ''subject'', p_type = ''string'', p_enum = None\<rparr>,
                     \<lparr>p_name = ''questionCount'', p_type = ''number'', p_enum = None\<rparr>],
       required = [''name'', ''subject'', ''questionCount'']\<rparr>,
      \<lparr>t_name = ''scanUsers'',
       properties = [\<lparr>p_name = ''filter'', p_type = ''string'',
                      p_enum = Some [''ALL'', ''PREMIUM'', ''FREE'', ''INACTIVE'']\<rparr>],
       required = [''filter'']\<rparr>,
      \<lparr>t_name = ''updateSystemSettings'',
       properties = [\<lparr>p_name = ''updates'', p_type = ''object'', p_enum = None\<rparr>],
       required = [''updates'']\<rparr>]"

section \<open>The dispatcher\<close>

text \<open>
  Modelled from the spec: the dispatcher, the code that resolves a call \<open>(name, arguments)\<close>
  of the agent and runs the handler, is not among the sources (they hold the registry and
  the catalog only). The spec (4.1, 7) has \<^verbatim>\<open>dispatch\<close> fail with UnknownOperation when the
  name is not in the catalog, and with InvalidArguments when a required parameter is
  absent or a value has the wrong shape (object, scalar, member of the enumeration), before
  any handler runs and before any store access; on success it returns the handler's result
  unchanged, and a handler's error is wrapped with the operation name.
\<close>

datatype dispatch_error =
    UnknownOperation
  | InvalidArguments
  | HandlerFailed string error

definition shape_ok :: "param \<Rightarrow> jsval \<Rightarrow> bool" where
  "shape_ok p v =
     (case v of
        JStr s \<Rightarrow>
          p_type p = ''string'' \<and> (case p_enum p of None \<Rightarrow> True | Some vs \<Rightarrow> s \<in> set vs)
      | JNum n \<Rightarrow> p_type p = ''number''
      | JObj ps \<Rightarrow> p_type p = ''object''
      | _ \<Rightarrow> False)"

definition valid_args :: "tool \<Rightarrow> jsobj \<Rightarrow> bool" where
  "valid_args t args =
     (list_all (\<lambda>r. map_of args r \<noteq> None) (required t) \<and>
      list_all (\<lambda>p. case map_of args (p_name p) of None \<Rightarrow> True | Some v \<Rightarrow> shape_ok p v)
        (properties t))"

definition dispatch :: "string \<Rightarrow> jsobj \<Rightarrow> world \<Rightarrow> (dispatch_error + jsval) \<times> world" where
  "dispatch name args w =
     (case find (\<lambda>t. t_name t = name) adminTools of
        None \<Rightarrow> (Inl UnknownOperation, w)
      | Some t \<Rightarrow>
          if \<not> valid_args t args then (Inl InvalidArguments, w)
          else case map_of ActionRegistry name of
              None \<Rightarrow> (Inl UnknownOperation, w)
            | Some handler \<Rightarrow>
                (case handler args of
                   None \<Rightarrow> (Inl InvalidArguments, w)
                 | Some run \<Rightarrow>
                     (case run w of
                        (Inl e, w1) \<Rightarrow> (Inl (HandlerFailed name e), w1)
                      | (Inr v, w1) \<Rightarrow> (Inr v, w1))))"

section \<open>Sample worlds\<close>

text \<open>A user record, and worlds in which the theorems below are run on concrete inputs.\<close>

definition alice :: jsobj where
  "alice =
     [(''id'', JStr ''u1''),
      (''name'', JStr ''Alice''),
      (''email'', JStr ''alice@example.org''),
      (''role'', JStr ''STUDENT''),
      (''credits'', JNum 120),
      (''isPremium'', JBool False),
      (''subscriptionEndDate'', JStr ''2026-01-01T00:00:00.000Z''),
      (''subscriptionHistory'', JArr [JObj [(''id'', JStr ''grant-1''), (''tier'', JStr ''MONTHLY'')]]),
      (''lastActiveTime'', JNum 1790000000000)]"

definition bob :: jsobj where
  "bob =
     [(''id'', JStr ''u2''),
      (''name'', JStr ''Bob''),
      (''email'', JStr ''bob@example.org''),
      (''role'', JStr ''STUDENT''),
      (''credits'', JNum 5),
      (''isPremium'', JBool True),
      (''subscriptionTier'', JStr ''YEARLY''),
      (''lastActiveTime'', JNum 1791021600000)]"

definition carol :: jsobj where
  "carol =
     [(''id'', JStr ''u3''),
      (''name'', JStr ''Carol''),
      (''email'', JStr ''carol@example.org''),
      (''role'', JStr ''ADMIN''),
      (''credits'', JNum 0)]"

definition dave :: jsobj where
  "dave =
     [(''id'', JStr ''u4''),
      (''name'', JStr ''Dave''),
      (''email'', JStr ''dave@example.org''),
      (''role'', JStr ''STUDENT''),
      (''credits'', JNum 30),
      (''lastActiveTime'', JStr ''2026-11-01T00:00:00.000Z'')]"

text \<open>The zone of a host whose local time is UTC.\<close>

definition utc_zone :: zone where
  "utc_zone = \<lparr>utc_offset = (\<lambda>t. 0), local_offset = (\<lambda>t. 0)\<rparr>"

text \<open>
  All four users in the document store, Alice alone in the live store, no faults; the
  clock reads 2026-11-03T10:00:00.000Z first and a millisecond more at every further
  reading, and local time is UTC. Alice was last active
  before 2026-10-03T10:00:00.000Z, Bob at that very instant, Dave after it, and Carol has
  no such time. The host's parser is given on the one date string that occurs.
\<close>

definition world0 :: world where
  "world0 =
     \<lparr>fs_users = [(''u1'', alice), (''u2'', bob), (''u3'', carol), (''u4'', dave)],
      rtdb_users = [(''u1'', alice)],
      rtdb_settings = Some [(''noticeText'', JStr ''hello'')],
      logs_answer = (\<lambda>n. []),
      calls = [],
      faults = (\<lambda>n c. None),
      clock = (\<lambda>k. 1793700000000 + int k),
      ticks = 0,
      tz = utc_zone,
      date_parse =
        (\<lambda>s. if s = ''2026-11-01T00:00:00.000Z'' then Some 1793491200000 else None)\<rparr>"

text \<open>The same world with the document store out of reach: every call to it throws.\<close>

definition world_fs_down :: world where
  "world_fs_down =
     world0\<lparr>faults := (\<lambda>n c. case c of
         FsDeleteDoc col k \<Rightarrow> Some ''unavailable''
       | FsGetDocs col \<Rightarrow> Some ''unavailable''
       | FsQueryLogs l \<Rightarrow> Some ''unavailable''
       | _ \<Rightarrow> None)\<rparr>"


text \<open>The world in which the client library refuses the document path \<^verbatim>\<open>users/a/b\<close>.\<close>

definition world_bad_id :: world where
  "world_bad_id =
     world0\<lparr>faults := (\<lambda>n c.
        if c = FsDoc ''users'' ''a/b'' then Some ''Invalid document reference.'' else None)\<rparr>"

section \<open>Properties\<close>

text \<open>
  A run that fails with message \<open>m\<close> after one read of the live record of \<open>userId\<close> and
  nothing else: no other store call, and the contents of both stores as they were.
\<close>

definition fails_without_write :: "jsval io \<Rightarrow> world \<Rightarrow> string \<Rightarrow> string \<Rightarrow> bool" where
  "fails_without_write run w userId m =
     (fst (run w) = Inl (Error m) \<and>
      calls (snd (run w)) = calls w @ [RtdbGet (''users/'' @ userId)] \<and>
      fs_users (snd (run w)) = fs_users w \<and>
      rtdb_users (snd (run w)) = rtdb_users w \<and>
      rtdb_settings (snd (run w)) = rtdb_settings w)"

section \<open>The catalog and the dispatcher\<close>

lemma find_adminTools:
  "find (\<lambda>t. t_name t = name) adminTools = Some t \<Longrightarrow> t \<in> set adminTools"
  by (auto simp: find_Some_iff)

lemma enum_param_is_string:
  "t \<in> set adminTools \<Longrightarrow> p \<in> set (properties t) \<Longrightarrow> p_enum p = Some vs \<Longrightarrow>
   p_type p = ''string''"
  by (auto simp: adminTools_def)

lemma shape_enum:
  "p_enum p = Some vs \<Longrightarrow> p_type p = ''string'' \<Longrightarrow> v \<notin> JStr ` set vs \<Longrightarrow> \<not> shape_ok p v"
  by (cases v) (auto simp: shape_ok_def)

text \<open>
  C1. A call whose operation is in the catalog and whose arguments are invalid (a required
  parameter has no value, or a parameter with an enumeration has a value outside it) is
  answered with InvalidArguments, and the world is the one before the call: no store has
  been read or written.
\<close>

theorem dispatch_rejects_invalid:
  assumes "find (\<lambda>t. t_name t = name) adminTools = Some t"
    and "(\<exists>r \<in> set (required t). map_of args r = None) \<or>
         (\<exists>p \<in> set (properties t). \<exists>vs v.
            p_enum p = Some vs \<and> map_of args (p_name p) = Some v \<and> v \<notin> JStr ` set vs)"
  shows "dispatch name args w = (Inl InvalidArguments, w)"
proof -
  have "\<not> valid_args t args"
    using assms(2)
  proof
    assume "\<exists>r \<in> set (required t). map_of args r = None"
    then show ?thesis by (auto simp: valid_args_def list_all_iff)
  next
    assume "\<exists>p \<in> set (properties t). \<exists>vs v.
      p_enum p = Some vs \<and> map_of args (p_name p) = Some v \<and> v \<notin> JStr ` set vs"
    then obtain p vs v where p: "p \<in> set (properties t)" "p_enum p = Some vs"
      "map_of args (p_name p) = Some v" "v \<notin> JStr ` set vs" by blast
    have "p_type p = ''string''"
      using enum_param_is_string [OF find_adminTools [OF assms(1)] p(1) p(2)] .
    then have ns: "\<not> shape_ok p v" using shape_enum p by blast
    have "\<not> (\<forall>q \<in> set (properties t).
        case map_of args (p_name q) of None \<Rightarrow> True | Some x \<Rightarrow> shape_ok q x)"
    proof
      assume a: "\<forall>q \<in> set (properties t).
        case map_of args (p_name q) of None \<Rightarrow> True | Some x \<Rightarrow> shape_ok q x"
      from bspec [OF a p(1)] p(3) ns show False by simp
    qed
    then show ?thesis by (simp add: valid_args_def list_all_iff)
  qed
  with assms(1) show ?thesis by (simp add: dispatch_def)
qed

text \<open>
  The theorem on two calls: a grant with the plan \<^verbatim>\<open>DAILY\<close>, which is outside the
  enumeration, and a scan without its required filter.
\<close>

theorem dispatch_rejects_invalid_witness:
  "find (\<lambda>t. t_name t = ''grantSubscription'') adminTools = Some (adminTools ! 2) \<and>
   p_enum (properties (adminTools ! 2) ! 1) =
     Some [''WEEKLY'', ''MONTHLY'', ''YEARLY'', ''LIFETIME''] \<and>
   map_of [(''userId'', JStr ''u1''), (''plan'', JStr ''DAILY''), (''level'', JStr ''BASIC'')]
     ''plan'' = Some (JStr ''DAILY'') \<and>
   dispatch ''grantSubscription''
     [(''userId'', JStr ''u1''), (''plan'', JStr ''DAILY''), (''level'', JStr ''BASIC'')] world0
     = (Inl InvalidArguments, world0) \<and>
   find (\<lambda>t. t_name t = ''scanUsers'') adminTools = Some (adminTools ! 8) \<and>
   dispatch ''scanUsers'' [] world0 = (Inl InvalidArguments, world0)"
  using dispatch_rejects_invalid [of "''grantSubscription''" "adminTools ! 2"
      "[(''userId'', JStr ''u1''), (''plan'', JStr ''DAILY''), (''level'', JStr ''BASIC'')]" world0]
    dispatch_rejects_invalid [of "''scanUsers''" "adminTools ! 8" "[]" world0]
  by (simp add: adminTools_def)

text \<open>
  C10. Every operation that the catalog declares has a handler in the registry; the
  registry's \<^verbatim>\<open>getRecentLogs\<close> is declared by no entry of the catalog.
\<close>

theorem catalog_within_registry:
  "set (map t_name adminTools) \<subseteq> set (map fst ActionRegistry) \<and>
   ''getRecentLogs'' \<in> set (map fst ActionRegistry) \<and>
   ''getRecentLogs'' \<notin> set (map t_name adminTools)"
  by (simp add: adminTools_def ActionRegistry_def)

section \<open>Deleting a user\<close>

text \<open>
  C4, as the code has it. \<^verbatim>\<open>deleteUser\<close> deletes the document first. When that call
  throws, the handler fails at once and the live record is not touched; when it succeeds,
  the removal of the live record is attempted, and the handler fails or succeeds with it.
\<close>

theorem deleteUser_outcomes:
  "deleteUser userId w =
     (case faults w (length (calls w)) (FsDeleteDoc ''users'' userId) of
        Some m \<Rightarrow>
          (Inl (Error (''Failed to delete user '' @ userId @ '': '' @ m)),
           w\<lparr>calls := calls w @ [FsDeleteDoc ''users'' userId]\<rparr>)
      | None \<Rightarrow>
          (case faults w (Suc (length (calls w))) (RtdbRemove (''users/'' @ userId)) of
             Some m \<Rightarrow>
               (Inl (Error (''Failed to delete user '' @ userId @ '': '' @ m)),
                w\<lparr>calls := calls w @
                     [FsDeleteDoc ''users'' userId, RtdbRemove (''users/'' @ userId)],
                  fs_users := AList.delete userId (fs_users w)\<rparr>)
           | None \<Rightarrow>
               (Inr (JStr (''User '' @ userId @
                  '' deleted successfully from Firestore and RTDB.'')),
                w\<lparr>calls := calls w @
                     [FsDeleteDoc ''users'' userId, RtdbRemove (''users/'' @ userId)],
                  fs_users := AList.delete userId (fs_users w),
                  rtdb_users := AList.delete userId (rtdb_users w)\<rparr>)))"
  by (simp add: deleteUser_def io_catch_def io_bind_def io_return_def io_throw_def
      deleteDoc_users_def remove_user_def store_def split: option.splits)

text \<open>
  C4, as the claim has it, fails: with the document store out of reach and the live store
  in order, \<^verbatim>\<open>deleteUser\<close> makes the one call to the document store and stops; the
  removal of the live record is never attempted and Alice's live record stays.
\<close>

theorem deleteUser_stops_counterexample:
  "faults world_fs_down (length (calls world_fs_down)) (RtdbRemove ''users/u1'') = None \<and>
   fst (deleteUser ''u1'' world_fs_down) =
     Inl (Error ''Failed to delete user u1: unavailable'') \<and>
   calls (snd (deleteUser ''u1'' world_fs_down)) = [FsDeleteDoc ''users'' ''u1''] \<and>
   map_of (rtdb_users (snd (deleteUser ''u1'' world_fs_down))) ''u1'' = Some alice"
  by (simp add: deleteUser_def io_catch_def io_bind_def io_return_def io_throw_def
      deleteDoc_users_def remove_user_def store_def world_fs_down_def world0_def)

section \<open>Listings\<close>

text \<open>
  C8. When the read of the document store throws, \<^verbatim>\<open>scanUsers\<close> and
  \<^verbatim>\<open>getRecentLogs\<close> each return the empty array, not an error.
\<close>

theorem read_failures_swallowed:
  "(faults w (length (calls w)) (FsGetDocs ''users'') = Some m \<longrightarrow>
      fst (scanUsers flt w) = Inr (JArr [])) \<and>
   (faults w (length (calls w)) (FsQueryLogs (case limit of None \<Rightarrow> 20 | Some n \<Rightarrow> n))
      = Some m \<longrightarrow>
      fst (getRecentLogs limit w) = Inr (JArr []))"
  by (simp add: scanUsers_def getRecentLogs_def getAllUsers_def getDocs_users_def
      getDocs_logs_def io_catch_def io_bind_def io_return_def store_def new_Date_def)

theorem read_failures_swallowed_witness:
  "faults world_fs_down (length (calls world_fs_down)) (FsGetDocs ''users'')
     = Some ''unavailable'' \<and>
   fst (scanUsers INACTIVE world_fs_down) = Inr (JArr []) \<and>
   faults world_fs_down (length (calls world_fs_down)) (FsQueryLogs 20) = Some ''unavailable'' \<and>
   fst (getRecentLogs None world_fs_down) = Inr (JArr [])"
  using read_failures_swallowed [of world_fs_down "''unavailable''" INACTIVE None]
  by (simp add: world_fs_down_def world0_def)

section \<open>Locking and unlocking\<close>

text \<open>
  C9. \<^verbatim>\<open>banUser\<close> is \<^verbatim>\<open>updateUser\<close> with the lock flag set, whatever the reason, so two
  reasons give the same run; \<^verbatim>\<open>unbanUser\<close> is \<^verbatim>\<open>updateUser\<close> with the flag cleared.
\<close>

theorem ban_is_update:
  "banUser userId reason = updateUser userId [(''isLocked'', JBool True)] \<and>
   banUser userId reason = banUser userId reason' \<and>
   unbanUser userId = updateUser userId [(''isLocked'', JBool False)]"
  by (simp add: banUser_def unbanUser_def)

section \<open>Objects and dates\<close>

lemma map_of_spread:
  "map_of (spread a b) k = (case map_of b k of Some v \<Rightarrow> Some v | None \<Rightarrow> map_of a k)"
  by (simp add: spread_def merge_conv' map_add_def)

lemma get_prop_spread:
  "get_prop (spread a b) k = (case map_of b k of Some v \<Rightarrow> v | None \<Rightarrow> get_prop a k)"
  by (simp add: get_prop_def map_of_spread split: option.splits)

lemma MonthFromTime_range: "0 \<le> MonthFromTime t \<and> MonthFromTime t < 12"
  by (simp add: MonthFromTime_def Let_def)

text \<open>Within the month of \<open>t\<close>, the day \<open>k\<close> days after the day of \<open>t\<close> is day \<open>Day t + k\<close>.\<close>

lemma MakeDay_same_month:
  "MakeDay (YearFromTime t) (MonthFromTime t) (DateFromTime t + k) = Day t + k"
proof -
  have "MonthFromTime t div 12 = 0" "MonthFromTime t mod 12 = MonthFromTime t"
    using MonthFromTime_range [of t] by simp_all
  then show ?thesis
    by (simp add: MakeDay_def DateFromTime_def DayWithinYear_def Let_def)
qed

text \<open>
  \<^verbatim>\<open>d.setDate(now.getDate() + k)\<close> moves the local time of \<open>d\<close> on by \<open>k\<close> days when
  \<open>now\<close> and \<open>d\<close> fall on the same day of the month.
\<close>

lemma setDate_shift:
  assumes "getDate z (Some t1) = getDate z (Some t2)"
  shows "setDate z (Some t2) (map_option (\<lambda>d. d + k) (getDate z (Some t1))) =
    TimeClip (UTC z (LocalTime z t2 + k * msPerDay))"
proof -
  have "MakeDate (Day (LocalTime z t2) + k) (TimeWithinDay (LocalTime z t2)) =
      LocalTime z t2 + k * msPerDay"
    by (simp add: MakeDate_def Day_def TimeWithinDay_def algebra_simps)
  then show ?thesis
    by (simp add: assms) (simp add: setDate_def getDate_def MakeDay_same_month Let_def)
qed

lemma utc_zone_times: "LocalTime utc_zone t = t" "UTC utc_zone t = t"
  by (simp_all add: LocalTime_def UTC_def utc_zone_def)

text \<open>The first two readings of the clock of the sample world are on the same day.\<close>

lemma same_day_readings:
  "getDate utc_zone (Some 1793700000000) = getDate utc_zone (Some 1793700000001)"
proof -
  have "DateFromTime 1793700000000 = 3" by code_simp
  moreover have "DateFromTime 1793700000001 = 3" by code_simp
  ultimately show ?thesis by (simp add: getDate_def utc_zone_times)
qed

section \<open>Updating a user\<close>

lemma get_user_run:
  "faults w (length (calls w)) (RtdbGet (''users/'' @ userId)) = None \<Longrightarrow>
   get_user userId w =
     (Inr (map_of (rtdb_users w) userId), w\<lparr>calls := calls w @ [RtdbGet (''users/'' @ userId)]\<rparr>)"
  by (simp add: get_user_def io_bind_def store_def)

lemma updateUser_bad_id:
  assumes "faults w (length (calls w)) (FsDoc ''users'' userId) = Some m"
  shows "updateUser userId updates w = (Inl (Error (''Failed to update user: '' @ m)), w)"
  using assms by (simp add: updateUser_def io_catch_def io_bind_def io_throw_def doc_def)

lemma updateUser_missing:
  assumes "faults w (length (calls w)) (FsDoc ''users'' userId) = None"
    and "faults w (length (calls w)) (RtdbGet (''users/'' @ userId)) = None"
    and "map_of (rtdb_users w) userId = None"
  shows "updateUser userId updates w =
     (Inl (Error ''Failed to update user: User not found''),
      w\<lparr>calls := calls w @ [RtdbGet (''users/'' @ userId)]\<rparr>)"
  using assms
  by (simp add: updateUser_def io_catch_def io_bind_def io_throw_def doc_def get_user_run)

lemma updateUser_found:
  assumes "faults w (length (calls w)) (FsDoc ''users'' userId) = None"
    and "faults w (length (calls w)) (RtdbGet (''users/'' @ userId)) = None"
    and "map_of (rtdb_users w) userId = Some current"
    and "faults w (Suc (length (calls w))) (SaveUserToLive (spread current updates)) = None"
  shows "updateUser userId updates w =
     (Inr (JStr (''User '' @ userId @ '' updated.'')),
      w\<lparr>calls := calls w @
           [RtdbGet (''users/'' @ userId), SaveUserToLive (spread current updates)],
        rtdb_users :=
          AList.update (js_toString (get_prop (spread current updates) ''id''))
            (spread current updates) (rtdb_users w)\<rparr>)"
  using assms
  by (simp add: updateUser_def io_catch_def io_bind_def io_return_def doc_def get_user_run
      saveUserToLive_def store_def)

text \<open>
  C5. On a user with a live record, and with no store call failing, \<^verbatim>\<open>updateUser\<close>
  reads the record, hands the merged record to \<^verbatim>\<open>saveUserToLive\<close>, which stores it as
  the live record, and reports success. In the merged record every field that the mapping
  names has the value the mapping gives it, and every other field the value it had.
\<close>

theorem updateUser_merges:
  assumes "map_of (rtdb_users w) userId = Some current"
    and "faults w = (\<lambda>k c. None)"
  shows "fst (updateUser userId updates w) = Inr (JStr (''User '' @ userId @ '' updated.'')) \<and>
    calls (snd (updateUser userId updates w)) =
      calls w @ [RtdbGet (''users/'' @ userId), SaveUserToLive (spread current updates)] \<and>
    map_of (rtdb_users (snd (updateUser userId updates w)))
      (js_toString (get_prop (spread current updates) ''id'')) = Some (spread current updates) \<and>
    (\<forall>f. map_of (spread current updates) f =
       (case map_of updates f of Some v \<Rightarrow> Some v | None \<Rightarrow> map_of current f))"
  using assms by (simp add: updateUser_found map_of_spread update_conv')

text \<open>
  The theorem on \<^verbatim>\<open>updateUser("u1", {credits: 500})\<close>: Alice's credits become 500 and
  all her other fields stay.
\<close>

theorem updateUser_merges_witness:
  "map_of (rtdb_users world0) ''u1'' = Some alice \<and>
   faults world0 = (\<lambda>k c. None) \<and>
   fst (updateUser ''u1'' [(''credits'', JNum 500)] world0) = Inr (JStr ''User u1 updated.'') \<and>
   calls (snd (updateUser ''u1'' [(''credits'', JNum 500)] world0)) =
     [RtdbGet ''users/u1'', SaveUserToLive (spread alice [(''credits'', JNum 500)])] \<and>
   map_of (rtdb_users (snd (updateUser ''u1'' [(''credits'', JNum 500)] world0))) ''u1'' =
     Some (spread alice [(''credits'', JNum 500)]) \<and>
   map_of (spread alice [(''credits'', JNum 500)]) ''credits'' = Some (JNum 500) \<and>
   (\<forall>f. map_of (spread alice [(''credits'', JNum 500)]) f =
      (if f = ''credits'' then Some (JNum 500) else map_of alice f))"
proof -
  have h1: "map_of (rtdb_users world0) ''u1'' = Some alice"
    by (simp add: world0_def)
  have h2: "faults world0 = (\<lambda>k c. None)"
    by (simp add: world0_def)
  have id: "js_toString (get_prop (spread alice [(''credits'', JNum 500)]) ''id'') = ''u1''"
    by (simp add: get_prop_spread) (simp add: alice_def get_prop_def)
  from updateUser_merges [OF h1 h2, of "[(''credits'', JNum 500)]"] id h1 h2
  show ?thesis by (simp add: world0_def)
qed

section \<open>Granting a subscription\<close>

lemma grantSubscription_missing:
  assumes "map_of (rtdb_users w) userId = None"
    and "faults w (length (calls w)) (RtdbGet (''users/'' @ userId)) = None"
    and "TimeClip (clock w (ticks w)) = Some t0"
    and "grant_end (tz w) plan (Some t0) (TimeClip (clock w (Suc (ticks w)))) \<noteq> Some None"
  shows "grantSubscription userId plan level w =
     (Inl (Error ''User not found''),
      w\<lparr>ticks := Suc (Suc (Suc (ticks w))),
        calls := calls w @ [RtdbGet (''users/'' @ userId)]\<rparr>)"
proof (cases "grant_end (tz w) plan (Some t0) (TimeClip (clock w (Suc (ticks w))))")
  case None
  with assms show ?thesis
    by (simp add: grantSubscription_def io_bind_def new_Date_def Date_now_def io_lift_def
        toISOString_def io_throw_def get_user_def store_def Let_def)
next
  case (Some d)
  with assms(4) obtain te where "d = Some te" by (cases d) auto
  with Some assms show ?thesis
    by (simp add: grantSubscription_def io_bind_def new_Date_def Date_now_def io_lift_def
        toISOString_def io_throw_def get_user_def store_def Let_def)
qed

text \<open>
  A grant to a user with a live record, with no store call failing and valid dates: \<open>e\<close>
  is the end of the grant (\<open>None\<close> for none), \<open>entry\<close> the new history entry and \<open>saved\<close>
  the record handed to \<^verbatim>\<open>saveUserToLive\<close>.
\<close>

lemma grantSubscription_found:
  assumes "map_of (rtdb_users w) userId = Some user"
    and "faults w = (\<lambda>k c. None)"
    and "TimeClip (clock w (ticks w)) = Some t0"
    and "grant_end (tz w) plan (Some t0) (TimeClip (clock w (Suc (ticks w)))) = map_option Some e"
    and "spread_or_empty (get_prop user ''subscriptionHistory'') = Inr old"
    and "entry = historyEntry (clock w (Suc (Suc (ticks w)))) plan level (iso_string t0)
           (case e of None \<Rightarrow> ''LIFETIME'' | Some te \<Rightarrow> iso_string te)"
    and "saved = spread user (grant_updates plan level
           (case e of None \<Rightarrow> JUndefined | Some te \<Rightarrow> JStr (iso_string te)) (JObj entry # old))"
  shows "fst (grantSubscription userId plan level w) =
      Inr (JStr (''User '' @ userId @ '' updated.'')) \<and>
    calls (snd (grantSubscription userId plan level w)) =
      calls w @ [RtdbGet (''users/'' @ userId), RtdbGet (''users/'' @ userId),
                 SaveUserToLive saved] \<and>
    rtdb_users (snd (grantSubscription userId plan level w)) =
      AList.update (js_toString (get_prop saved ''id'')) saved (rtdb_users w) \<and>
    fs_users (snd (grantSubscription userId plan level w)) = fs_users w"
  using assms
  by (cases e)
    (simp_all add: grantSubscription_def io_bind_def new_Date_def Date_now_def io_lift_def
      toISOString_def get_user_def store_def Let_def updateUser_def io_catch_def
      io_return_def saveUserToLive_def doc_def)




text \<open>
  C7. A grant of plan LIFETIME to a user with a live record, when no store call fails and
  the clock is in the range of \<^verbatim>\<open>Date\<close>. The record stored as the user's live record
  has \<^verbatim>\<open>subscriptionEndDate\<close> undefined, whatever it was before, and the new entry in
  front of its history has the string LIFETIME as its end, not a date.
\<close>

theorem lifetime_grant:
  assumes "map_of (rtdb_users w) userId = Some user"
    and "faults w = (\<lambda>k c. None)"
    and "\<bar>clock w (ticks w)\<bar> \<le> 8640000000000000"
    and "spread_or_empty (get_prop user ''subscriptionHistory'') = Inr old"
  shows "\<exists>entry saved.
    fst (grantSubscription userId LIFETIME level w) =
      Inr (JStr (''User '' @ userId @ '' updated.'')) \<and>
    calls (snd (grantSubscription userId LIFETIME level w)) =
      calls w @ [RtdbGet (''users/'' @ userId), RtdbGet (''users/'' @ userId),
                 SaveUserToLive saved] \<and>
    map_of (rtdb_users (snd (grantSubscription userId LIFETIME level w)))
      (js_toString (get_prop user ''id'')) = Some saved \<and>
    map_of saved ''subscriptionEndDate'' = Some JUndefined \<and>
    get_prop saved ''subscriptionHistory'' = JArr (JObj entry # old) \<and>
    get_prop entry ''tier'' = JStr ''LIFETIME'' \<and>
    get_prop entry ''endDate'' = JStr ''LIFETIME''"
proof -
  define entry where "entry = historyEntry (clock w (Suc (Suc (ticks w)))) LIFETIME level
    (iso_string (clock w (ticks w)))
    (case None :: int option of None \<Rightarrow> ''LIFETIME'' | Some te \<Rightarrow> iso_string te)"
  define saved where "saved = spread user (grant_updates LIFETIME level
    (case None :: int option of None \<Rightarrow> JUndefined | Some te \<Rightarrow> JStr (iso_string te))
    (JObj entry # old))"
  have now: "TimeClip (clock w (ticks w)) = Some (clock w (ticks w))"
    using assms(3) by (simp add: TimeClip_def)
  have ge: "grant_end (tz w) LIFETIME (Some (clock w (ticks w)))
      (TimeClip (clock w (Suc (ticks w)))) = map_option Some None"
    by (simp add: grant_end_def)
  note run = grantSubscription_found [OF assms(1,2) now ge assms(4) entry_def saved_def]
  have id: "get_prop saved ''id'' = get_prop user ''id''"
    by (simp add: saved_def get_prop_spread grant_updates_def)
  have "map_of saved ''subscriptionEndDate'' = Some JUndefined"
    "get_prop saved ''subscriptionHistory'' = JArr (JObj entry # old)"
    by (simp_all add: saved_def get_prop_spread map_of_spread grant_updates_def)
  moreover have "get_prop entry ''tier'' = JStr ''LIFETIME''"
    "get_prop entry ''endDate'' = JStr ''LIFETIME''"
    by (simp_all add: entry_def historyEntry_def get_prop_def)
  ultimately show ?thesis
    using run id by (intro exI [of _ entry] exI [of _ saved]) (simp add: update_conv')
qed

text \<open>The theorem on a lifetime grant to Alice, whose record had an end date.\<close>

theorem lifetime_grant_witness:
  "map_of (rtdb_users world0) ''u1'' = Some alice \<and>
   faults world0 = (\<lambda>k c. None) \<and>
   \<bar>clock world0 (ticks world0)\<bar> \<le> 8640000000000000 \<and>
   spread_or_empty (get_prop alice ''subscriptionHistory'') =
     Inr [JObj [(''id'', JStr ''grant-1''), (''tier'', JStr ''MONTHLY'')]] \<and>
   map_of alice ''subscriptionEndDate'' = Some (JStr ''2026-01-01T00:00:00.000Z'') \<and>
   (\<exists>entry saved.
      fst (grantSubscription ''u1'' LIFETIME ULTRA world0) = Inr (JStr ''User u1 updated.'') \<and>
      calls (snd (grantSubscription ''u1'' LIFETIME ULTRA world0)) =
        [RtdbGet ''users/u1'', RtdbGet ''users/u1'', SaveUserToLive saved] \<and>
      map_of (rtdb_users (snd (grantSubscription ''u1'' LIFETIME ULTRA world0))) ''u1'' =
        Some saved \<and>
      map_of saved ''subscriptionEndDate'' = Some JUndefined \<and>
      get_prop saved ''subscriptionHistory'' =
        JArr [JObj entry, JObj [(''id'', JStr ''grant-1''), (''tier'', JStr ''MONTHLY'')]] \<and>
      get_prop entry ''tier'' = JStr ''LIFETIME'' \<and>
      get_prop entry ''endDate'' = JStr ''LIFETIME'')"
proof -
  have h1: "map_of (rtdb_users world0) ''u1'' = Some alice"
    and h2: "faults world0 = (\<lambda>k c. None)"
    and h3: "\<bar>clock world0 (ticks world0)\<bar> \<le> 8640000000000000"
    by (simp_all add: world0_def)
  have h4: "spread_or_empty (get_prop alice ''subscriptionHistory'') =
     Inr [JObj [(''id'', JStr ''grant-1''), (''tier'', JStr ''MONTHLY'')]]"
    by (simp add: alice_def get_prop_def spread_or_empty_def)
  have old: "map_of alice ''subscriptionEndDate'' = Some (JStr ''2026-01-01T00:00:00.000Z'')"
    by (simp add: alice_def)
  have id: "js_toString (get_prop alice ''id'') = ''u1''"
    by (simp add: alice_def get_prop_def)
  from lifetime_grant [OF h1 h2 h3 h4, of ULTRA] h1 h2 h3 h4 old id
  show ?thesis by (simp add: world0_def)
qed

section \<open>A user without a live record\<close>

text \<open>
  C2, as the code has it. For a user with no live record, when the read of the live store
  does not throw. \<^verbatim>\<open>updateUser\<close>, \<^verbatim>\<open>banUser\<close> and \<^verbatim>\<open>unbanUser\<close> first build the
  document reference: when that succeeds they fail with
  \<^verbatim>\<open>Failed to update user: User not found\<close> after the one read, and when the id is
  refused they fail with the library's message before any store call, the world untouched.
  \<^verbatim>\<open>grantSubscription\<close> (its dates being in the range of \<^verbatim>\<open>Date\<close>) and
  \<^verbatim>\<open>sendInboxMessage\<close> fail with \<^verbatim>\<open>User not found\<close> after the one read. None of
  the five writes or deletes anything. \<^verbatim>\<open>deleteUser\<close> does not look the user up: it
  calls the deletion of the document and then the removal of the live record, and reports
  success when neither throws.
\<close>

theorem missing_user_rejected:
  assumes "map_of (rtdb_users w) userId = None"
    and "faults w (length (calls w)) (RtdbGet (''users/'' @ userId)) = None"
  shows "(faults w (length (calls w)) (FsDoc ''users'' userId) = None \<longrightarrow>
          fails_without_write (updateUser userId updates) w userId
            ''Failed to update user: User not found'' \<and>
          fails_without_write (banUser userId reason) w userId
            ''Failed to update user: User not found'' \<and>
          fails_without_write (unbanUser userId) w userId
            ''Failed to update user: User not found'') \<and>
         (\<forall>m. faults w (length (calls w)) (FsDoc ''users'' userId) = Some m \<longrightarrow>
          updateUser userId updates w = (Inl (Error (''Failed to update user: '' @ m)), w) \<and>
          banUser userId reason w = (Inl (Error (''Failed to update user: '' @ m)), w) \<and>
          unbanUser userId w = (Inl (Error (''Failed to update user: '' @ m)), w)) \<and>
         (TimeClip (clock w (ticks w)) \<noteq> None \<and>
          grant_end (tz w) plan (TimeClip (clock w (ticks w)))
            (TimeClip (clock w (Suc (ticks w)))) \<noteq> Some None \<longrightarrow>
          fails_without_write (grantSubscription userId plan level) w userId
            ''User not found'') \<and>
         fails_without_write (sendInboxMessage userId text) w userId ''User not found'' \<and>
         (faults w (length (calls w)) (FsDeleteDoc ''users'' userId) = None \<and>
          faults w (Suc (length (calls w))) (RtdbRemove (''users/'' @ userId)) = None \<longrightarrow>
          fst (deleteUser userId w) =
            Inr (JStr (''User '' @ userId @ '' deleted successfully from Firestore and RTDB.'')) \<and>
          calls (snd (deleteUser userId w)) =
            calls w @ [FsDeleteDoc ''users'' userId, RtdbRemove (''users/'' @ userId)])"
proof -
  have u: "fails_without_write (updateUser userId upd) w userId
      ''Failed to update user: User not found''"
    if "faults w (length (calls w)) (FsDoc ''users'' userId) = None" for upd
    using assms that by (simp add: fails_without_write_def updateUser_missing)
  have b: "updateUser userId upd w = (Inl (Error (''Failed to update user: '' @ m)), w)"
    if "faults w (length (calls w)) (FsDoc ''users'' userId) = Some m" for upd m
    using that by (rule updateUser_bad_id)
  have s: "fails_without_write (sendInboxMessage userId text) w userId ''User not found''"
    using assms
    by (simp add: fails_without_write_def sendInboxMessage_def io_bind_def io_throw_def
        get_user_run)
  have g: "fails_without_write (grantSubscription userId plan level) w userId ''User not found''"
    if "TimeClip (clock w (ticks w)) \<noteq> None"
      and "grant_end (tz w) plan (TimeClip (clock w (ticks w)))
            (TimeClip (clock w (Suc (ticks w)))) \<noteq> Some None"
  proof -
    from that(1) obtain t0 where t0: "TimeClip (clock w (ticks w)) = Some t0" by blast
    with that(2) have "grant_end (tz w) plan (Some t0) (TimeClip (clock w (Suc (ticks w))))
      \<noteq> Some None" by simp
    from grantSubscription_missing [OF assms t0 this]
    show ?thesis by (simp add: fails_without_write_def)
  qed
  have d: "fst (deleteUser userId w) =
      Inr (JStr (''User '' @ userId @ '' deleted successfully from Firestore and RTDB.'')) \<and>
    calls (snd (deleteUser userId w)) =
      calls w @ [FsDeleteDoc ''users'' userId, RtdbRemove (''users/'' @ userId)]"
    if "faults w (length (calls w)) (FsDeleteDoc ''users'' userId) = None \<and>
        faults w (Suc (length (calls w))) (RtdbRemove (''users/'' @ userId)) = None"
    using that
    by (simp add: deleteUser_def io_catch_def io_bind_def io_return_def
        deleteDoc_users_def remove_user_def store_def)
  from u b s g d show ?thesis by (simp add: banUser_def unbanUser_def)
qed

text \<open>
  The theorem on Bob, who has a document and no live record, and on the id \<^verbatim>\<open>a/b\<close>,
  which the library refuses.
\<close>

theorem missing_user_rejected_witness:
  "map_of (rtdb_users world0) ''u2'' = None \<and>
   faults world0 (length (calls world0)) (RtdbGet (''users/'' @ ''u2'')) = None \<and>
   faults world0 (length (calls world0)) (FsDoc ''users'' ''u2'') = None \<and>
   TimeClip (clock world0 (ticks world0)) \<noteq> None \<and>
   grant_end (tz world0) YEARLY (TimeClip (clock world0 (ticks world0)))
     (TimeClip (clock world0 (Suc (ticks world0)))) \<noteq> Some None \<and>
   faults world0 (length (calls world0)) (FsDeleteDoc ''users'' ''u2'') = None \<and>
   faults world0 (Suc (length (calls world0))) (RtdbRemove (''users/'' @ ''u2'')) = None \<and>
   fails_without_write (updateUser ''u2'' [(''credits'', JNum 500)]) world0 ''u2''
     ''Failed to update user: User not found'' \<and>
   fails_without_write (banUser ''u2'' ''spam'') world0 ''u2''
     ''Failed to update user: User not found'' \<and>
   fails_without_write (unbanUser ''u2'') world0 ''u2''
     ''Failed to update user: User not found'' \<and>
   fails_without_write (grantSubscription ''u2'' YEARLY ULTRA) world0 ''u2'' ''User not found'' \<and>
   fails_without_write (sendInboxMessage ''u2'' ''hi'') world0 ''u2'' ''User not found'' \<and>
   fst (deleteUser ''u2'' world0) =
     Inr (JStr (''User '' @ ''u2'' @ '' deleted successfully from Firestore and RTDB.'')) \<and>
   calls (snd (deleteUser ''u2'' world0)) =
     calls world0 @ [FsDeleteDoc ''users'' ''u2'', RtdbRemove (''users/'' @ ''u2'')] \<and>
   map_of (rtdb_users world_bad_id) ''a/b'' = None \<and>
   faults world_bad_id (length (calls world_bad_id)) (RtdbGet (''users/'' @ ''a/b'')) = None \<and>
   faults world_bad_id (length (calls world_bad_id)) (FsDoc ''users'' ''a/b'') =
     Some ''Invalid document reference.'' \<and>
   updateUser ''a/b'' [(''credits'', JNum 500)] world_bad_id =
     (Inl (Error (''Failed to update user: '' @ ''Invalid document reference.'')), world_bad_id) \<and>
   banUser ''a/b'' ''spam'' world_bad_id =
     (Inl (Error (''Failed to update user: '' @ ''Invalid document reference.'')), world_bad_id) \<and>
   unbanUser ''a/b'' world_bad_id =
     (Inl (Error (''Failed to update user: '' @ ''Invalid document reference.'')), world_bad_id)"
proof -
  have h1: "map_of (rtdb_users world0) ''u2'' = None"
    and h2: "faults world0 (length (calls world0)) (RtdbGet (''users/'' @ ''u2'')) = None"
    and h3: "faults world0 (length (calls world0)) (FsDoc ''users'' ''u2'') = None"
    and h4: "faults world0 (length (calls world0)) (FsDeleteDoc ''users'' ''u2'') = None"
    and h5: "faults world0 (Suc (length (calls world0))) (RtdbRemove (''users/'' @ ''u2'')) = None"
    by (simp_all add: world0_def)
  have h6: "TimeClip (clock world0 (ticks world0)) \<noteq> None"
    by (simp add: world0_def TimeClip_def)
  from setDate_shift [OF same_day_readings, of 365]
  have h7: "grant_end (tz world0) YEARLY (TimeClip (clock world0 (ticks world0)))
     (TimeClip (clock world0 (Suc (ticks world0)))) \<noteq> Some None"
    by (simp add: world0_def grant_end_def TimeClip_def msPerDay_def utc_zone_times)
  have b1: "map_of (rtdb_users world_bad_id) ''a/b'' = None"
    and b2: "faults world_bad_id (length (calls world_bad_id)) (RtdbGet (''users/'' @ ''a/b''))
      = None"
    and b3: "faults world_bad_id (length (calls world_bad_id)) (FsDoc ''users'' ''a/b'') =
      Some ''Invalid document reference.''"
    by (simp_all add: world_bad_id_def world0_def)
  from missing_user_rejected [OF h1 h2, of "[(''credits'', JNum 500)]" "''spam''" YEARLY ULTRA
      "''hi''"]
    missing_user_rejected [OF b1 b2, of "[(''credits'', JNum 500)]" "''spam''" YEARLY ULTRA
      "''hi''"]
    h1 h2 h3 h4 h5 h6 h7 b1 b2 b3
  show ?thesis by blast
qed

text \<open>
  C2, as the claim has it, fails for \<^verbatim>\<open>deleteUser\<close>, which never reads the live store:
  on Bob, who has no live record, it reports success, and his document is deleted.
\<close>

theorem deleteUser_missing_counterexample:
  "map_of (rtdb_users world0) ''u2'' = None \<and>
   map_of (fs_users world0) ''u2'' = Some bob \<and>
   fst (deleteUser ''u2'' world0) =
     Inr (JStr ''User u2 deleted successfully from Firestore and RTDB.'') \<and>
   calls (snd (deleteUser ''u2'' world0)) =
     [FsDeleteDoc ''users'' ''u2'', RtdbRemove ''users/u2''] \<and>
   map_of (fs_users (snd (deleteUser ''u2'' world0))) ''u2'' = None"
  by (simp add: deleteUser_def io_catch_def io_bind_def io_return_def io_throw_def
      deleteDoc_users_def remove_user_def store_def world0_def)

section \<open>Inactive users\<close>



end
